theory Spec2Isabelle
  imports Main "HOL-Library.AList"
begin

section \<open>Python values, exceptions and the object store\<close>

text \<open>
  The objects of \<^verbatim>\<open>py4DSTEM/io/classes/tree.py\<close> are mutable and refer to each other
  (\<^verbatim>\<open>_root\<close> points upwards, \<^verbatim>\<open>_tree._dict\<close> points downwards, metadata instances can be
  shared between roots), so the embedding keeps an explicit store: nodes and metadata
  instances live at addresses, and every method takes the store and returns the store it
  leaves behind, together with either its return value or the exception it raised.
\<close>

type_synonym addr = nat
type_synonym md_addr = nat

text \<open>The dynamically typed arguments of \<^verbatim>\<open>Node.tree\<close>, \<^verbatim>\<open>Node.graft\<close> and friends.\<close>

datatype pyval =
    VNone
  | VBool bool
  | VInt int
  | VStr string
  | VNode addr
  | VTuple "pyval list"

text \<open>Each \<^verbatim>\<open>assert\<close> of the source, by the line it stands on.\<close>

datatype assertion =
    Show_root_not_bool        \<comment> \<open>line 184\<close>
  | Show_unrooted             \<comment> \<open>line 188: Can't display an unrooted node from its root!\<close>
  | Add_not_a_node            \<comment> \<open>line 197\<close>
  | Add_self_unrooted         \<comment> \<open>line 198: Can't add objects to an unrooted node.\<close>
  | Add_node_rooted           \<comment> \<open>line 199: Can't add a rooted node to a different tree.\<close>
  | Graft_self_unrooted       \<comment> \<open>line 231: Can't graft an unrooted node\<close>
  | Graft_target_unrooted     \<comment> \<open>line 232: Can't graft onto an unrooted node\<close>
  | Graft_merge_metadata      \<comment> \<open>line 249\<close>
  | Tree_arg_type             \<comment> \<open>line 324: invalid arg type passed to .tree()\<close>
  | Tree_kwargs_count         \<comment> \<open>line 331: kwargs accepts at most 1 argument\<close>
  | Tree_keyword string       \<comment> \<open>line 334: invalid keyword passed to .tree(), k\<close>
  | Tree_show_type            \<comment> \<open>line 337\<close>
  | Tree_get_type             \<comment> \<open>line 345\<close>
  | Tree_graft_len            \<comment> \<open>line 354\<close>
  | Not_found string          \<comment> \<open>line 507: k not found in tree - check keys\<close>
  | Group_type                \<comment> \<open>line 376\<close>

datatype error =
    AssertionError assertion
  | IndexError
  | KeyError string
  | ValueError
  | AttributeError
  | TypeError
  | NameError
  | RuntimeError
  | RecursionError
  | Invalid_slice             \<comment> \<open>line 503: Exception("invalid slice value to tree")\<close>
  | Invalid_arg string        \<comment> \<open>line 358: Exception("Invalid arg k; must be in ...")\<close>

datatype pyclass = Node_class | Root_class

text \<open>
  A \<^verbatim>\<open>Node\<close> instance. \<^verbatim>\<open>tree_dict\<close> is \<^verbatim>\<open>self._tree._dict\<close>: every node owns exactly one
  \<^verbatim>\<open>Tree\<close>, created in \<^verbatim>\<open>__init__\<close> and never reassigned, so the \<^verbatim>\<open>Tree\<close> object is kept
  inside its node. Python dictionaries keep insertion order, hence association lists.
  \<^verbatim>\<open>inst_emd_group_type\<close> is the instance attribute \<^verbatim>\<open>_emd_group_type\<close> that
  \<^verbatim>\<open>Root.__init__\<close> sets; the class attribute of the same name is \<open>class_emd_group_type\<close>.
\<close>

record node =
  pyclass :: pyclass
  name :: string
  tree_dict :: "(string \<times> addr) list"
  treepath :: "string option"
  root :: "addr option"
  metadata :: "(string \<times> md_addr) list"
  inst_emd_group_type :: "string option"

text \<open>
  Modelled from the spec: the \<^verbatim>\<open>Metadata\<close> class (\<^verbatim>\<open>py4DSTEM.io.classes.Metadata\<close>) is not
  among the sources. The spec gives it a \<^verbatim>\<open>name\<close>, a key-value dictionary and a
  \<^verbatim>\<open>copy()\<close> that returns an independent duplicate.
\<close>

record metadata_obj =
  md_name :: string
  md_params :: "(string \<times> string) list"

text \<open>
  The store. \<open>next_node\<close> and \<open>next_md\<close> are the first addresses not yet handed out;
  \<open>stdout\<close> collects the printed lines; \<open>linelevels\<close> is the default argument
  \<^verbatim>\<open>linelevels=[]\<close> of \<^verbatim>\<open>Tree._print_tree_to_screen\<close>, a single list shared by all calls;
  \<open>recursion_limit\<close> bounds the depth of the recursive printer as the interpreter does.
\<close>

record state =
  nodes :: "addr \<Rightarrow> node"
  next_node :: addr
  mds :: "md_addr \<Rightarrow> metadata_obj"
  next_md :: md_addr
  stdout :: "string list"
  linelevels :: "nat list"
  recursion_limit :: nat

type_synonym 'a result = "(error + 'a) \<times> state"

definition upd_node :: "addr \<Rightarrow> (node \<Rightarrow> node) \<Rightarrow> state \<Rightarrow> state" where
  "upd_node a f st = st\<lparr>nodes := (nodes st)(a := f (nodes st a))\<rparr>"

section \<open>Strings\<close>

text \<open>\<^verbatim>\<open>str.split(sep)\<close> for a one-character separator, and \<^verbatim>\<open>sep.join(list)\<close>.\<close>

fun str_split :: "char \<Rightarrow> string \<Rightarrow> string list" where
  "str_split c [] = [[]]"
| "str_split c (x # xs) =
     (if x = c then [] # str_split c xs
      else (case str_split c xs of
              [] \<Rightarrow> [[x]]
            | w # ws \<Rightarrow> (x # w) # ws))"

fun str_join :: "string \<Rightarrow> string list \<Rightarrow> string" where
  "str_join sep [] = []"
| "str_join sep [w] = w"
| "str_join sep (w # v # ws) = w @ sep @ str_join sep (v # ws)"

section \<open>Tree\<close>

text \<open>
  \<^verbatim>\<open>Tree._getitem_from_list\<close> (lines 501-513). The list argument shrinks by one element
  in every call, so the recursion is structural.
\<close>

fun getitem_from_list :: "(addr \<Rightarrow> node) \<Rightarrow> (string \<times> addr) list \<Rightarrow> string list \<Rightarrow> error + addr" where
  "getitem_from_list h d [] = Inl Invalid_slice"
| "getitem_from_list h d (k # x) =
     (case map_of d k of
        None \<Rightarrow> Inl (AssertionError (Not_found k))
      | Some c \<Rightarrow>
          if length x = 0 then Inr c
          else getitem_from_list h (tree_dict (h c)) x)"

text \<open>
  The \<^verbatim>\<open>try\<close> block of \<^verbatim>\<open>Tree.__getitem__\<close> (lines 494-498): \<^verbatim>\<open>list.remove\<close> deletes the first
  occurrence and raises \<^verbatim>\<open>ValueError\<close> when there is none, which ends the block.
\<close>

definition remove_empty_twice :: "string list \<Rightarrow> string list" where
  "remove_empty_twice l =
     (if [] \<in> set l then
        (let l1 = remove1 [] l in
         if [] \<in> set l1 then remove1 [] l1 else l1)
      else l)"

definition Tree_getitem :: "(addr \<Rightarrow> node) \<Rightarrow> (string \<times> addr) list \<Rightarrow> string \<Rightarrow> error + addr" where
  "Tree_getitem h d x = getitem_from_list h d (remove_empty_twice (str_split CHR ''/'' x))"

text \<open>\<^verbatim>\<open>Tree.__delitem__\<close> (line 517): \<^verbatim>\<open>del\<close> on a dictionary raises \<^verbatim>\<open>KeyError\<close> on a missing key.\<close>

definition Tree_delitem :: "(string \<times> addr) list \<Rightarrow> string \<Rightarrow> error + (string \<times> addr) list" where
  "Tree_delitem d x =
     (if x \<in> fst ` set d then Inr (AList.delete x d) else Inl (KeyError x))"

section \<open>Constructors and the metadata property\<close>

definition Node_init :: "string \<Rightarrow> state \<Rightarrow> addr \<times> state" where
  "Node_init nm st =
     (let a = next_node st in
      (a, st\<lparr>nodes := (nodes st)(a :=
                \<lparr>pyclass = Node_class, name = nm, tree_dict = [], treepath = None,
                 root = None, metadata = [], inst_emd_group_type = None\<rparr>),
              next_node := Suc a\<rparr>))"

definition Root_init :: "string \<Rightarrow> state \<Rightarrow> addr \<times> state" where
  "Root_init nm st =
     (let (a, st1) = Node_init nm st in
      (a, upd_node a (\<lambda>n. n\<lparr>pyclass := Root_class, treepath := Some [],
                              root := Some a, inst_emd_group_type := Some ''root''\<rparr>) st1))"

text \<open>The setter of \<^verbatim>\<open>Node.metadata\<close> (lines 158-161): the key is the bundle's own name.\<close>

definition metadata_set :: "addr \<Rightarrow> md_addr \<Rightarrow> state \<Rightarrow> state" where
  "metadata_set a x st =
     upd_node a (\<lambda>n. n\<lparr>metadata := AList.update (md_name (mds st x)) x (metadata n)\<rparr>) st"

text \<open>
  Modelled from the spec: \<^verbatim>\<open>Metadata.__init__\<close> and \<^verbatim>\<open>Metadata.copy\<close> are not among the
  sources. A new instance gets a fresh address; \<^verbatim>\<open>copy()\<close> is "an independent duplicate":
  a new instance with the same name and the same contents.
\<close>

definition Metadata_init :: "string \<Rightarrow> (string \<times> string) list \<Rightarrow> state \<Rightarrow> md_addr \<times> state" where
  "Metadata_init nm ps st =
     (let a = next_md st in
      (a, st\<lparr>mds := (mds st)(a := \<lparr>md_name = nm, md_params = ps\<rparr>), next_md := Suc a\<rparr>))"

definition Metadata_copy :: "md_addr \<Rightarrow> state \<Rightarrow> md_addr \<times> state" where
  "Metadata_copy x st = Metadata_init (md_name (mds st x)) (md_params (mds st x)) st"

section \<open>Node: tree methods\<close>

text \<open>\<^verbatim>\<open>Node.add_to_tree\<close> (lines 191-202).\<close>

definition add_to_tree :: "addr \<Rightarrow> pyval \<Rightarrow> state \<Rightarrow> unit result" where
  "add_to_tree self node st =
     (case node of
        VNode n \<Rightarrow>
          (case root (nodes st self) of
             None \<Rightarrow> (Inl (AssertionError Add_self_unrooted), st)
           | Some r \<Rightarrow>
               (case root (nodes st n) of
                  Some r' \<Rightarrow> (Inl (AssertionError Add_node_rooted), st)
                | None \<Rightarrow>
                    (let st1 = upd_node n (\<lambda>x. x\<lparr>root := root (nodes st self)\<rparr>) st;
                         st2 = upd_node self
                                 (\<lambda>x. x\<lparr>tree_dict := AList.update (name (nodes st1 n)) n (tree_dict x)\<rparr>) st1
                     in (case treepath (nodes st2 self) of
                           None \<Rightarrow> (Inl TypeError, st2)
                         | Some p \<Rightarrow>
                             (Inr (), upd_node n
                                (\<lambda>x. x\<lparr>treepath := Some (p @ ''/'' @ name (nodes st2 n))\<rparr>) st2)))))
      | _ \<Rightarrow> (Inl (AssertionError Add_not_a_node), st))"

text \<open>\<^verbatim>\<open>Node.get_from_tree\<close> (lines 204-214). \<^verbatim>\<open>name[0]\<close> raises on the empty string.\<close>

definition get_from_tree :: "addr \<Rightarrow> string \<Rightarrow> state \<Rightarrow> error + addr" where
  "get_from_tree self nm st =
     (case nm of
        [] \<Rightarrow> Inl IndexError
      | c # cs \<Rightarrow>
          if c \<noteq> CHR ''/'' then Tree_getitem (nodes st) (tree_dict (nodes st self)) nm
          else (case root (nodes st self) of
                  None \<Rightarrow> Inl AttributeError
                | Some r \<Rightarrow> Tree_getitem (nodes st) (tree_dict (nodes st r)) nm))"

text \<open>
  The test \<^verbatim>\<open>merge_metadata in [True,False,'copy']\<close> of line 249. Membership in a list
  compares with \<^verbatim>\<open>==\<close>, under which the integers 1 and 0 equal \<^verbatim>\<open>True\<close> and \<^verbatim>\<open>False\<close>.
\<close>

definition merge_metadata_in_list :: "pyval \<Rightarrow> bool" where
  "merge_metadata_in_list m =
     (case m of
        VBool b \<Rightarrow> True
      | VInt i \<Rightarrow> i = 1 \<or> i = 0
      | VStr s \<Rightarrow> s = ''copy''
      | _ \<Rightarrow> False)"

definition root_val :: "addr \<Rightarrow> state \<Rightarrow> pyval" where
  "root_val a st = (case root (nodes st a) of None \<Rightarrow> VNone | Some r \<Rightarrow> VNode r)"

text \<open>
  The two loops of lines 255-256 and 259-260, over \<^verbatim>\<open>old_root.metadata.keys()\<close>. The
  argument \<open>n\<close> is the size of that dictionary when the iteration began: a dictionary
  iterator raises \<^verbatim>\<open>RuntimeError\<close> at its next step when the size has changed, which can
  happen here when the old and the new root are the same object.
\<close>

fun merge_loop :: "bool \<Rightarrow> addr \<Rightarrow> addr \<Rightarrow> nat \<Rightarrow> string list \<Rightarrow> state \<Rightarrow> unit result" where
  "merge_loop cp old_root node n [] st =
     (if length (metadata (nodes st old_root)) \<noteq> n then (Inl RuntimeError, st)
      else (Inr (), st))"
| "merge_loop cp old_root node n (key # keys) st =
     (if length (metadata (nodes st old_root)) \<noteq> n then (Inl RuntimeError, st)
      else (case map_of (metadata (nodes st old_root)) key of
              None \<Rightarrow> (Inl (KeyError key), st)
            | Some x \<Rightarrow>
                (let (y, st1) = (if cp then Metadata_copy x st else (x, st)) in
                 (case root (nodes st1 node) of
                    None \<Rightarrow> (Inl AttributeError, st1)
                  | Some r \<Rightarrow> merge_loop cp old_root node n keys (metadata_set r y st1)))))"

text \<open>Lines 249-262 of \<^verbatim>\<open>Node.graft\<close>: the metadata of the old root, and the return value.\<close>

definition graft_merge :: "addr \<Rightarrow> addr \<Rightarrow> pyval \<Rightarrow> state \<Rightarrow> pyval result" where
  "graft_merge old_root node merge_metadata st =
     (if \<not> merge_metadata_in_list merge_metadata then
        (Inl (AssertionError Graft_merge_metadata), st)
      else if merge_metadata = VBool False then (Inr (root_val node st), st)
      else
        (case merge_loop (merge_metadata \<noteq> VBool True) old_root node
                (length (metadata (nodes st old_root)))
                (map fst (metadata (nodes st old_root))) st of
           (Inl e, st1) \<Rightarrow> (Inl e, st1)
         | (Inr u, st1) \<Rightarrow> (Inr (root_val node st1), st1)))"

text \<open>\<^verbatim>\<open>Node.graft\<close> (lines 216-262).\<close>

definition graft :: "addr \<Rightarrow> pyval \<Rightarrow> pyval \<Rightarrow> state \<Rightarrow> pyval result" where
  "graft self node merge_metadata st =
     (case root (nodes st self) of
        None \<Rightarrow> (Inl (AssertionError Graft_self_unrooted), st)
      | Some old_root \<Rightarrow>
          (case node of
             VNode t \<Rightarrow>
               (case root (nodes st t) of
                  None \<Rightarrow> (Inl (AssertionError Graft_target_unrooted), st)
                | Some new_root \<Rightarrow>
                    (case treepath (nodes st self) of
                       None \<Rightarrow> (Inl AttributeError, st)
                     | Some p \<Rightarrow>
                         (case rev (str_split CHR ''/'' p) of
                            [] \<Rightarrow> (Inl IndexError, st)
                          | this_node # rest \<Rightarrow>
                              (case get_from_tree self (str_join ''/'' (rev rest)) st of
                                 Inl e \<Rightarrow> (Inl e, st)
                               | Inr upstream_node \<Rightarrow>
                                   (case Tree_delitem (tree_dict (nodes st upstream_node)) this_node of
                                      Inl e \<Rightarrow> (Inl e, st)
                                    | Inr d \<Rightarrow>
                                        (let st1 = upd_node upstream_node (\<lambda>x. x\<lparr>tree_dict := d\<rparr>) st;
                                             st2 = upd_node self (\<lambda>x. x\<lparr>root := None\<rparr>) st1
                                         in (case add_to_tree t (VNode self) st2 of
                                               (Inl e, st3) \<Rightarrow> (Inl e, st3)
                                             | (Inr u, st3) \<Rightarrow>
                                                 graft_merge old_root t merge_metadata st3)))))))
           | _ \<Rightarrow> (Inl AttributeError, st)))"

text \<open>\<^verbatim>\<open>Node.cut_from_tree\<close> (lines 264-283).\<close>

definition cut_from_tree :: "addr \<Rightarrow> pyval \<Rightarrow> state \<Rightarrow> pyval result" where
  "cut_from_tree self root_metadata st =
     (let (new_root, st1) = Root_init (name (nodes st self)) st in
      graft self (VNode new_root) root_metadata st1)"

section \<open>Printing\<close>

text \<open>
  \<^verbatim>\<open>Tree._print_tree_to_screen\<close> (lines 538-564). The first argument bounds the depth of
  the recursion; \<open>print_keys\<close> is the \<^verbatim>\<open>for\<close> loop over \<^verbatim>\<open>enumerate(keys)\<close>. Inside the
  \<^verbatim>\<open>try\<close>, \<^verbatim>\<open>tree[k]\<close> goes through \<^verbatim>\<open>Tree.__getitem__\<close>, and only \<^verbatim>\<open>AttributeError\<close> is
  caught.
\<close>

fun print_tree_to_screen :: "nat \<Rightarrow> (string \<times> addr) list \<Rightarrow> nat \<Rightarrow> state \<Rightarrow> unit result"
  and print_keys :: "nat \<Rightarrow> (string \<times> addr) list \<Rightarrow> nat \<Rightarrow> nat \<Rightarrow> (nat \<times> string) list \<Rightarrow> state \<Rightarrow> unit result"
where
  "print_tree_to_screen 0 tree tablevel st = (Inl RecursionError, st)"
| "print_tree_to_screen (Suc fuel) tree tablevel st =
     (let st1 = (if tablevel \<notin> set (linelevels st)
                 then st\<lparr>linelevels := linelevels st @ [tablevel]\<rparr> else st);
          keys = map fst tree
      in print_keys fuel tree tablevel (length keys) (enumerate 0 keys) st1)"
| "print_keys fuel tree tablevel N [] st = (Inr (), st)"
| "print_keys fuel tree tablevel N ((i, k) # todo) st =
     (let string = (if 0 \<in> set (linelevels st) then ''|'' else []) @
                   concat (map (\<lambda>idx. CHR 0x09 # (if idx + 1 \<in> set (linelevels st) then ''|'' else []))
                             [0..<tablevel]);
          st1 = st\<lparr>stdout := stdout st @ [string @ ''--'' @ k]\<rparr>
      in if i = N - 1 \<and> tablevel \<notin> set (linelevels st1) then (Inl ValueError, st1)
         else
           (let st2 = (if i = N - 1 then st1\<lparr>linelevels := remove1 tablevel (linelevels st1)\<rparr> else st1)
            in (case Tree_getitem (nodes st2) tree k of
                  Inl e \<Rightarrow>
                    if e = AttributeError then print_keys fuel tree tablevel N todo st2
                    else (Inl e, st2)
                | Inr c \<Rightarrow>
                    (case print_tree_to_screen fuel (tree_dict (nodes st2 c)) (tablevel + 1) st2 of
                       (Inl e, st3) \<Rightarrow>
                         if e = AttributeError then print_keys fuel tree tablevel N todo st3
                         else (Inl e, st3)
                     | (Inr u, st3) \<Rightarrow> print_keys fuel tree tablevel N todo st3))))"

text \<open>\<^verbatim>\<open>Tree.print\<close> (lines 530-536).\<close>

definition Tree_print :: "(string \<times> addr) list \<Rightarrow> state \<Rightarrow> unit result" where
  "Tree_print tree st =
     print_tree_to_screen (recursion_limit st) tree 0 (st\<lparr>stdout := stdout st @ [''/'']\<rparr>)"

text \<open>\<^verbatim>\<open>Node.show_tree\<close> (lines 178-189).\<close>

definition show_tree :: "addr \<Rightarrow> pyval \<Rightarrow> state \<Rightarrow> unit result" where
  "show_tree self rt st =
     (case rt of
        VBool b \<Rightarrow>
          if \<not> b then Tree_print (tree_dict (nodes st self)) st
          else (case root (nodes st self) of
                  None \<Rightarrow> (Inl (AssertionError Show_unrooted), st)
                | Some r \<Rightarrow> Tree_print (tree_dict (nodes st r)) st)
      | _ \<Rightarrow> (Inl (AssertionError Show_root_not_bool), st))"

section \<open>The dispatching method\<close>

text \<open>
  \<^verbatim>\<open>Node.tree(arg=None, **kwargs)\<close> (lines 286-358). \<open>kwargs\<close> is the dictionary of keyword
  arguments in the order given; \<^verbatim>\<open>popitem\<close> takes its last entry. In the \<^verbatim>\<open>add\<close> branch the
  message of the failing \<^verbatim>\<open>assert\<close> (line 342) mentions an unbound variable \<^verbatim>\<open>value\<close>, so
  what is raised there is \<^verbatim>\<open>NameError\<close>. In the \<^verbatim>\<open>graft\<close> branch \<^verbatim>\<open>len(v)\<close> raises \<^verbatim>\<open>TypeError\<close>
  on a value without a length, and \<^verbatim>\<open>n,m = v\<close> takes a string of two characters apart as it
  does a pair.
\<close>

definition returning_None :: "unit result \<Rightarrow> pyval result" where
  "returning_None r = (case r of (Inl e, st) \<Rightarrow> (Inl e, st) | (Inr u, st) \<Rightarrow> (Inr VNone, st))"

definition returning_node :: "error + addr \<Rightarrow> state \<Rightarrow> pyval result" where
  "returning_node r st = (case r of Inl e \<Rightarrow> (Inl e, st) | Inr a \<Rightarrow> (Inr (VNode a), st))"

definition tree :: "addr \<Rightarrow> pyval \<Rightarrow> (string \<times> pyval) list \<Rightarrow> state \<Rightarrow> pyval result" where
  "tree self arg kwargs st =
     (case arg of
        VBool b \<Rightarrow> returning_None (show_tree self arg st)
      | VNode n \<Rightarrow> returning_None (add_to_tree self arg st)
      | VStr s \<Rightarrow> returning_node (get_from_tree self s st) st
      | VNone \<Rightarrow>
          if length kwargs = 0 then returning_None (show_tree self (VBool False) st)
          else if length kwargs \<noteq> 1 then (Inl (AssertionError Tree_kwargs_count), st)
          else
            (let (k, v) = last kwargs in
             if k \<notin> set [''show'', ''add'', ''get'', ''cut'', ''graft''] then
               (Inl (AssertionError (Tree_keyword k)), st)
             else if k = ''show'' then
               (case v of
                  VBool b \<Rightarrow> returning_None (show_tree self v st)
                | _ \<Rightarrow> (Inl (AssertionError Tree_show_type), st))
             else if k = ''add'' then
               (case v of
                  VNode n \<Rightarrow> returning_None (add_to_tree self v st)
                | _ \<Rightarrow> (Inl NameError, st))
             else if k = ''get'' then
               (case v of
                  VStr s \<Rightarrow> returning_node (get_from_tree self s st) st
                | _ \<Rightarrow> (Inl (AssertionError Tree_get_type), st))
             else if k = ''cut'' then cut_from_tree self v st
             else if k = ''graft'' then
               (case v of
                  VNode n \<Rightarrow> graft self v (VBool True) st
                | VTuple [n, m] \<Rightarrow> graft self n m st
                | VTuple vs \<Rightarrow> (Inl (AssertionError Tree_graft_len), st)
                | VStr [c, d] \<Rightarrow> graft self (VStr [c]) (VStr [d]) st
                | VStr s \<Rightarrow> (Inl (AssertionError Tree_graft_len), st)
                | _ \<Rightarrow> (Inl TypeError, st))
             else (Inl (Invalid_arg k), st))
      | _ \<Rightarrow> (Inl (AssertionError Tree_arg_type), st))"

section \<open>Writing a node\<close>

text \<open>
  Modelled from the spec: the container binding (h5py groups) is not among the sources.
  The spec asks of it named sub-groups and attributes attached to a group; creating a
  sub-group under a name already taken is refused with \<^verbatim>\<open>ValueError\<close>, as h5py does.
\<close>

datatype h5group = H5Group (h5_attrs: "(string \<times> string) list") (h5_groups: "(string \<times> h5group) list")

definition create_group :: "h5group \<Rightarrow> string \<Rightarrow> h5group \<Rightarrow> error + h5group" where
  "create_group g nm sub =
     (if nm \<in> fst ` set (h5_groups g) then Inl ValueError
      else Inr (H5Group (h5_attrs g) (h5_groups g @ [(nm, sub)])))"

text \<open>
  Modelled from the spec: \<^verbatim>\<open>Metadata.to_h5\<close> is not among the sources; a bundle is
  serialized into the container keyed by its name.
\<close>

definition Metadata_to_h5 :: "metadata_obj \<Rightarrow> h5group \<Rightarrow> h5group" where
  "Metadata_to_h5 md g =
     H5Group (h5_attrs g) (AList.update (md_name md) (H5Group (md_params md) []) (h5_groups g))"

text \<open>
  The class attribute \<^verbatim>\<open>_emd_group_type\<close> as \<^verbatim>\<open>self.__class__._emd_group_type\<close> finds it:
  \<^verbatim>\<open>Node\<close> defines it (line 137); \<^verbatim>\<open>Root\<close> defines none of its own, so the lookup on
  \<^verbatim>\<open>Root\<close> ends at \<^verbatim>\<open>Node\<close>. \<open>class_name\<close> is \<^verbatim>\<open>self.__class__.__name__\<close>.
\<close>

definition class_emd_group_type :: "pyclass \<Rightarrow> string" where
  "class_emd_group_type c = (case c of Node_class \<Rightarrow> ''node'' | Root_class \<Rightarrow> ''node'')"

definition class_name :: "pyclass \<Rightarrow> string" where
  "class_name c = (case c of Node_class \<Rightarrow> ''Node'' | Root_class \<Rightarrow> ''Root'')"

text \<open>The loop of lines 387-390: each bundle is renamed to its key, then written.\<close>

fun write_metadata :: "(string \<times> md_addr) list \<Rightarrow> h5group \<Rightarrow> state \<Rightarrow> h5group \<times> state" where
  "write_metadata [] g st = (g, st)"
| "write_metadata ((k, v) # items) g st =
     (let st1 = st\<lparr>mds := (mds st)(v := (mds st v)\<lparr>md_name := k\<rparr>)\<rparr>
      in write_metadata items (Metadata_to_h5 (mds st1 v) g) st1)"

text \<open>
  \<^verbatim>\<open>Node.to_h5\<close> (lines 363-392). \<open>EMD_group_types\<close> is imported from
  \<^verbatim>\<open>class_io_utils\<close>, which is not among the sources, and is a parameter here. The
  argument \<open>parent\<close> is the source's \<^verbatim>\<open>group\<close>; the result is the new group together with
  the parent that now holds it.
\<close>

definition to_h5 :: "string list \<Rightarrow> addr \<Rightarrow> h5group \<Rightarrow> state \<Rightarrow> (h5group \<times> h5group) result" where
  "to_h5 EMD_group_types self parent st =
     (if class_emd_group_type (pyclass (nodes st self)) \<notin> set EMD_group_types then
        (Inl (AssertionError Group_type), st)
      else if name (nodes st self) \<in> fst ` set (h5_groups parent) then (Inl ValueError, st)
      else
        (let grp = H5Group [(''emd_group_type'', class_emd_group_type (pyclass (nodes st self))),
                            (''python_class'', class_name (pyclass (nodes st self)))] [];
             items = metadata (nodes st self);
             (grp1, st1) =
               (if length items > 0 then
                  (let (grp_metadata, st') =
                         write_metadata items (H5Group [(''emd_group_type'', ''metadatabundle'')] []) st
                   in (H5Group (h5_attrs grp) (h5_groups grp @ [(''_metadata'', grp_metadata)]), st'))
                else (grp, st))
         in (Inr (grp1, H5Group (h5_attrs parent) (h5_groups parent @ [(name (nodes st self), grp1)])), st1)))"

section \<open>Example stores\<close>

text \<open>
  The stores used to run the methods on concrete trees are built with the constructors
  and \<open>add_to_tree\<close> themselves, starting from the store with no object in it.
\<close>

definition empty_state :: state where
  "empty_state =
     \<lparr>nodes = (\<lambda>a. \<lparr>pyclass = Node_class, name = [], tree_dict = [], treepath = None,
                      root = None, metadata = [], inst_emd_group_type = None\<rparr>),
      next_node = 0,
      mds = (\<lambda>a. \<lparr>md_name = [], md_params = []\<rparr>),
      next_md = 0, stdout = [], linelevels = [], recursion_limit = 1000\<rparr>"

definition add_new_node :: "addr \<Rightarrow> string \<Rightarrow> state \<Rightarrow> state" where
  "add_new_node p nm st = (let (a, st1) = Node_init nm st in snd (add_to_tree p (VNode a) st1))"

text \<open>
  \<open>small_example\<close>: a root \<^verbatim>\<open>R\<close> (address 0) with one child \<^verbatim>\<open>x\<close> (address 1), a second
  root \<^verbatim>\<open>S\<close> (address 2), and an unrooted node \<^verbatim>\<open>y\<close> (address 3).
\<close>

definition small_example :: state where
  "small_example =
     (let st1 = snd (Root_init ''R'' empty_state);
          st2 = add_new_node 0 ''x'' st1;
          st3 = snd (Root_init ''S'' st2)
      in snd (Node_init ''y'' st3))"

text \<open>
  \<open>bundle_example\<close>: \<open>small_example\<close> with one metadata bundle \<^verbatim>\<open>cal\<close> (address 0 of the
  metadata store) held by the root \<^verbatim>\<open>R\<close>.
\<close>

definition bundle_example :: state where
  "bundle_example =
     (case Metadata_init ''cal'' [(''k'', ''v'')] small_example of
        (m, st) \<Rightarrow> metadata_set 0 m st)"

text \<open>
  \<open>deep_example\<close>: a root \<^verbatim>\<open>R\<close> (address 0) over the chain \<^verbatim>\<open>a\<close> (1), \<^verbatim>\<open>x\<close> (2), \<^verbatim>\<open>y\<close> (3),
  a second root \<^verbatim>\<open>S\<close> (address 4), and one metadata bundle \<^verbatim>\<open>cal\<close> (address 0 of the
  metadata store) held by \<^verbatim>\<open>R\<close>. It is built one node at a time.
\<close>

definition chain_a :: state where
  "chain_a = add_new_node 0 ''a'' (snd (Root_init ''R'' empty_state))"

definition chain_x :: state where
  "chain_x = add_new_node 1 ''x'' chain_a"

definition chain_y :: state where
  "chain_y = add_new_node 2 ''y'' chain_x"

definition deep_example :: state where
  "deep_example =
     (case Metadata_init ''cal'' [(''k'', ''v'')] (snd (Root_init ''S'' chain_y)) of
        (m, st) \<Rightarrow> metadata_set 0 m st)"

section \<open>Notions used to state the properties\<close>

text \<open>
  \<open>walk h d ks\<close> follows the keys \<open>ks\<close> downwards from the dictionary \<open>d\<close> and gives the
  dictionary that is searched next, when every key of \<open>ks\<close> is found.
\<close>

fun walk :: "(addr \<Rightarrow> node) \<Rightarrow> (string \<times> addr) list \<Rightarrow> string list \<Rightarrow> (string \<times> addr) list option" where
  "walk h d [] = Some d"
| "walk h d (k # ks) = (case map_of d k of None \<Rightarrow> None | Some c \<Rightarrow> walk h (tree_dict (h c)) ks)"



section \<open>The example stores, evaluated\<close>

lemmas build_defs = empty_state_def add_new_node_def small_example_def
  Node_init_def Root_init_def upd_node_def add_to_tree_def Metadata_init_def metadata_set_def
  Let_def

lemma small_example_nodes:
  "nodes small_example 0 = \<lparr>pyclass = Root_class, name = ''R'', tree_dict = [(''x'', 1)],
     treepath = Some [], root = Some 0, metadata = [], inst_emd_group_type = Some ''root''\<rparr>"
  "nodes small_example (Suc 0) = \<lparr>pyclass = Node_class, name = ''x'', tree_dict = [],
     treepath = Some ''/x'', root = Some 0, metadata = [], inst_emd_group_type = None\<rparr>"
  "nodes small_example 2 = \<lparr>pyclass = Root_class, name = ''S'', tree_dict = [],
     treepath = Some [], root = Some 2, metadata = [], inst_emd_group_type = Some ''root''\<rparr>"
  "nodes small_example 3 = \<lparr>pyclass = Node_class, name = ''y'', tree_dict = [],
     treepath = None, root = None, metadata = [], inst_emd_group_type = None\<rparr>"
  by (simp_all add: build_defs)

lemma bundle_example_eval:
  "nodes bundle_example 0 = \<lparr>pyclass = Root_class, name = ''R'', tree_dict = [(''x'', 1)],
     treepath = Some [], root = Some 0, metadata = [(''cal'', 0)], inst_emd_group_type = Some ''root''\<rparr>"
  "nodes bundle_example (Suc 0) = \<lparr>pyclass = Node_class, name = ''x'', tree_dict = [],
     treepath = Some ''/x'', root = Some 0, metadata = [], inst_emd_group_type = None\<rparr>"
  "nodes bundle_example 2 = \<lparr>pyclass = Root_class, name = ''S'', tree_dict = [],
     treepath = Some [], root = Some 2, metadata = [], inst_emd_group_type = Some ''root''\<rparr>"
  "mds bundle_example 0 = \<lparr>md_name = ''cal'', md_params = [(''k'', ''v'')]\<rparr>"
  by (simp_all add: bundle_example_def Metadata_init_def metadata_set_def upd_node_def
        small_example_nodes Let_def small_example_def build_defs)

lemma chain_a_eval:
  "nodes chain_a 0 = \<lparr>pyclass = Root_class, name = ''R'', tree_dict = [(''a'', 1)],
     treepath = Some [], root = Some 0, metadata = [], inst_emd_group_type = Some ''root''\<rparr>"
  "nodes chain_a (Suc 0) = \<lparr>pyclass = Node_class, name = ''a'', tree_dict = [],
     treepath = Some ''/a'', root = Some 0, metadata = [], inst_emd_group_type = None\<rparr>"
  "next_node chain_a = 2" "next_md chain_a = 0"
  by (simp_all add: chain_a_def build_defs)

lemma chain_x_eval:
  "nodes chain_x 0 = \<lparr>pyclass = Root_class, name = ''R'', tree_dict = [(''a'', 1)],
     treepath = Some [], root = Some 0, metadata = [], inst_emd_group_type = Some ''root''\<rparr>"
  "nodes chain_x (Suc 0) = \<lparr>pyclass = Node_class, name = ''a'', tree_dict = [(''x'', 2)],
     treepath = Some ''/a'', root = Some 0, metadata = [], inst_emd_group_type = None\<rparr>"
  "nodes chain_x 2 = \<lparr>pyclass = Node_class, name = ''x'', tree_dict = [],
     treepath = Some ''/a/x'', root = Some 0, metadata = [], inst_emd_group_type = None\<rparr>"
  "next_node chain_x = 3" "next_md chain_x = 0"
  by (simp_all add: chain_x_def build_defs chain_a_eval)

lemma chain_y_eval:
  "nodes chain_y 0 = \<lparr>pyclass = Root_class, name = ''R'', tree_dict = [(''a'', 1)],
     treepath = Some [], root = Some 0, metadata = [], inst_emd_group_type = Some ''root''\<rparr>"
  "nodes chain_y (Suc 0) = \<lparr>pyclass = Node_class, name = ''a'', tree_dict = [(''x'', 2)],
     treepath = Some ''/a'', root = Some 0, metadata = [], inst_emd_group_type = None\<rparr>"
  "nodes chain_y 2 = \<lparr>pyclass = Node_class, name = ''x'', tree_dict = [(''y'', 3)],
     treepath = Some ''/a/x'', root = Some 0, metadata = [], inst_emd_group_type = None\<rparr>"
  "nodes chain_y 3 = \<lparr>pyclass = Node_class, name = ''y'', tree_dict = [],
     treepath = Some ''/a/x/y'', root = Some 0, metadata = [], inst_emd_group_type = None\<rparr>"
  "next_node chain_y = 4" "next_md chain_y = 0"
  by (simp_all add: chain_y_def build_defs chain_x_eval)

lemma deep_example_eval:
  "nodes deep_example 0 = \<lparr>pyclass = Root_class, name = ''R'', tree_dict = [(''a'', 1)],
     treepath = Some [], root = Some 0, metadata = [(''cal'', 0)], inst_emd_group_type = Some ''root''\<rparr>"
  "nodes deep_example (Suc 0) = \<lparr>pyclass = Node_class, name = ''a'', tree_dict = [(''x'', 2)],
     treepath = Some ''/a'', root = Some 0, metadata = [], inst_emd_group_type = None\<rparr>"
  "nodes deep_example 2 = \<lparr>pyclass = Node_class, name = ''x'', tree_dict = [(''y'', 3)],
     treepath = Some ''/a/x'', root = Some 0, metadata = [], inst_emd_group_type = None\<rparr>"
  "nodes deep_example 3 = \<lparr>pyclass = Node_class, name = ''y'', tree_dict = [],
     treepath = Some ''/a/x/y'', root = Some 0, metadata = [], inst_emd_group_type = None\<rparr>"
  "nodes deep_example 4 = \<lparr>pyclass = Root_class, name = ''S'', tree_dict = [],
     treepath = Some [], root = Some 4, metadata = [], inst_emd_group_type = Some ''root''\<rparr>"
  "mds deep_example 0 = \<lparr>md_name = ''cal'', md_params = [(''k'', ''v'')]\<rparr>"
  "next_node deep_example = 5" "next_md deep_example = 1"
  by (simp_all add: deep_example_def build_defs chain_y_eval)


lemmas run_defs = graft_def graft_merge_def get_from_tree_def Tree_getitem_def
  remove_empty_twice_def Tree_delitem_def add_to_tree_def upd_node_def metadata_set_def
  merge_metadata_in_list_def root_val_def Metadata_copy_def Metadata_init_def Let_def


section \<open>Adding a rooted node\<close>

text \<open>
  C7. When \<open>p\<close> is rooted and \<open>n\<close> is rooted already, \<^verbatim>\<open>p.add_to_tree(n)\<close> fails on the
  assertion of line 199 ("Can't add a rooted node to a different tree", the spec's
  AlreadyRootedError), and the store it leaves is the store it found: no child inserted,
  no root and no path changed, in either tree.
\<close>

theorem add_rooted_node_rejected:
  "root (nodes st p) \<noteq> None \<Longrightarrow> root (nodes st n) \<noteq> None \<Longrightarrow>
   add_to_tree p (VNode n) st = (Inl (AssertionError Add_node_rooted), st)"
  by (auto simp: add_to_tree_def)

theorem add_rooted_node_rejected_witness:
  "root (nodes small_example 2) \<noteq> None \<and> root (nodes small_example 1) \<noteq> None \<and>
   add_to_tree 2 (VNode 1) small_example = (Inl (AssertionError Add_node_rooted), small_example)"
  using add_rooted_node_rejected [of small_example 2 1] by (simp add: small_example_nodes)

section \<open>Looking up from the root of an unrooted node\<close>

text \<open>
  C10. On an unrooted node, \<^verbatim>\<open>get_from_tree\<close> with a non-empty name that starts with
  \<^verbatim>\<open>/\<close> raises \<^verbatim>\<open>AttributeError\<close>, whatever the node's own tree holds: line 214 reads
  \<^verbatim>\<open>self.root._tree\<close> and \<^verbatim>\<open>self.root\<close> is \<^verbatim>\<open>None\<close>.
\<close>

theorem get_from_root_of_unrooted:
  "root (nodes st n) = None \<Longrightarrow> s \<noteq> [] \<Longrightarrow> hd s = CHR ''/'' \<Longrightarrow>
   get_from_tree n s st = Inl AttributeError"
  by (cases s) (auto simp: get_from_tree_def)

theorem get_from_root_of_unrooted_witness:
  "root (nodes small_example 3) = None \<and> ''/x'' \<noteq> [] \<and> hd ''/x'' = CHR ''/'' \<and>
   get_from_tree 3 ''/x'' small_example = Inl AttributeError"
  using get_from_root_of_unrooted [of small_example 3 "''/x''"] by (simp add: small_example_nodes)

section \<open>Grafting a child of the root\<close>

text \<open>
  C4. The example of the spec, run on the code: \<^verbatim>\<open>R\<close> holds the child \<^verbatim>\<open>x\<close> with path
  \<^verbatim>\<open>/x\<close>, \<^verbatim>\<open>S\<close> is another root, and \<^verbatim>\<open>x.graft(S, False)\<close> is called. The path of the parent
  comes out as the empty string, \<^verbatim>\<open>get_from_tree\<close> reads its first character, and the
  call ends in \<^verbatim>\<open>IndexError\<close> with nothing moved.
\<close>

theorem graft_child_of_root_fails:
  "map_of (tree_dict (nodes small_example 0)) ''x'' = Some 1 \<and>
   root (nodes small_example 1) = Some 0 \<and> treepath (nodes small_example 1) = Some ''/x'' \<and>
   root (nodes small_example 2) = Some 2 \<and> pyclass (nodes small_example 2) = Root_class \<and>
   graft 1 (VNode 2) (VBool False) small_example = (Inl IndexError, small_example)"
  by (simp add: graft_def small_example_nodes get_from_tree_def)

section \<open>Grafting leaves the descendants as they were\<close>

text \<open>
  C1. Run on the code: in \<open>deep_example\<close> the node \<^verbatim>\<open>x\<close> (address 2, with its child \<^verbatim>\<open>y\<close>,
  address 3) is grafted from the tree of \<^verbatim>\<open>R\<close> (address 0) onto the root \<^verbatim>\<open>S\<close> (address
  4). The call returns \<^verbatim>\<open>S\<close>, \<^verbatim>\<open>x\<close> has root \<^verbatim>\<open>S\<close>, and \<^verbatim>\<open>y\<close> is found from \<^verbatim>\<open>S\<close> under
  \<^verbatim>\<open>/x/y\<close>, but the root of \<^verbatim>\<open>y\<close> is still \<^verbatim>\<open>R\<close>: only the grafted node itself is given
  the new root.
\<close>

theorem graft_leaves_descendant_root:
  "fst (graft 2 (VNode 4) (VBool True) deep_example) = Inr (VNode 4) \<and>
   get_from_tree 4 ''/x/y'' (snd (graft 2 (VNode 4) (VBool True) deep_example)) = Inr 3 \<and>
   root (nodes (snd (graft 2 (VNode 4) (VBool True) deep_example)) 2) = Some 4 \<and>
   root (nodes (snd (graft 2 (VNode 4) (VBool True) deep_example)) 3) = Some 0"
  by (simp add: run_defs deep_example_eval)

text \<open>
  C2. The same graft, read for the paths: afterwards \<^verbatim>\<open>y\<close> is found from \<^verbatim>\<open>S\<close> under
  \<^verbatim>\<open>/x/y\<close>, while its path field still reads \<^verbatim>\<open>/a/x/y\<close>, an address that no longer
  resolves in the tree of \<^verbatim>\<open>S\<close>. The path of \<^verbatim>\<open>x\<close> itself is rewritten to \<^verbatim>\<open>/x\<close>. A graft
  of \<^verbatim>\<open>y\<close> after that looks for its parent under the old path and fails.
\<close>

theorem graft_leaves_descendant_path:
  "fst (graft 2 (VNode 4) (VBool True) deep_example) = Inr (VNode 4) \<and>
   get_from_tree 4 ''/x/y'' (snd (graft 2 (VNode 4) (VBool True) deep_example)) = Inr 3 \<and>
   treepath (nodes (snd (graft 2 (VNode 4) (VBool True) deep_example)) 2) = Some ''/x'' \<and>
   treepath (nodes (snd (graft 2 (VNode 4) (VBool True) deep_example)) 3) = Some ''/a/x/y'' \<and>
   get_from_tree 4 ''/a/x/y'' (snd (graft 2 (VNode 4) (VBool True) deep_example)) =
     Inl (AssertionError (Not_found ''a'')) \<and>
   fst (graft 3 (VNode 4) (VBool False) (snd (graft 2 (VNode 4) (VBool True) deep_example))) =
     Inl (AssertionError (Not_found ''x''))"
  by (simp add: run_defs deep_example_eval)

section \<open>The group type written for a root\<close>

text \<open>
  C3. Run on the code: a fresh \<^verbatim>\<open>Root\<close> carries the instance attribute
  \<^verbatim>\<open>_emd_group_type = 'root'\<close>, and \<^verbatim>\<open>to_h5\<close> reads the class attribute, which is
  \<^verbatim>\<open>'node'\<close>. Whatever \<^verbatim>\<open>EMD_group_types\<close> holds, the call either fails on the assertion
  of line 376 or tags the group it creates with \<^verbatim>\<open>emd_group_type = 'node'\<close>; the tag is
  never \<^verbatim>\<open>'root'\<close>.
\<close>

theorem Root_to_h5_writes_node:
  "inst_emd_group_type (nodes (snd (Root_init ''root'' empty_state)) 0) = Some ''root'' \<and>
   pyclass (nodes (snd (Root_init ''root'' empty_state)) 0) = Root_class \<and>
   fst (to_h5 EMD_group_types 0 (H5Group [] []) (snd (Root_init ''root'' empty_state))) =
     (if ''node'' \<in> set EMD_group_types then
        Inr (H5Group [(''emd_group_type'', ''node''), (''python_class'', ''Root'')] [],
             H5Group [] [(''root'', H5Group [(''emd_group_type'', ''node''), (''python_class'', ''Root'')] [])])
      else Inl (AssertionError Group_type))"
  by (simp add: Root_init_def Node_init_def upd_node_def empty_state_def to_h5_def
        class_emd_group_type_def class_name_def Let_def)

section \<open>The errors of a lookup\<close>

lemma str_split_not_Nil: "str_split c s \<noteq> []"
  by (induction s) (auto split: list.splits)

lemma str_split_one_empty: "str_split c s = [[]] \<longleftrightarrow> s = []"
  by (cases s) (auto split: list.splits simp: str_split_not_Nil)

lemma str_split_two_empty: "str_split c s = [[], []] \<longleftrightarrow> s = [c]"
  by (cases s) (auto split: list.splits simp: str_split_one_empty)

lemma remove1_Nil_iff: "remove1 x l = [] \<longleftrightarrow> l = [] \<or> l = [x]"
  by (cases l) auto

lemma remove1_single_iff: "x \<in> set l \<Longrightarrow> remove1 x l = [x] \<longleftrightarrow> l = [x, x]"
  by (cases l) (auto simp: remove1_Nil_iff)

lemma remove_empty_twice_Nil:
  "remove_empty_twice l = [] \<longleftrightarrow> l = [] \<or> l = [[]] \<or> l = [[], []]"
  unfolding remove_empty_twice_def Let_def
  by (auto simp: remove1_Nil_iff remove1_single_iff)

lemma getitem_from_list_Invalid_slice:
  "getitem_from_list h d l = Inl Invalid_slice \<longleftrightarrow> l = []"
  by (induction l arbitrary: d) (auto split: option.splits)

lemma getitem_from_list_walk:
  "walk h d ks = Some d' \<Longrightarrow> map_of d' k = None \<Longrightarrow>
   getitem_from_list h d (ks @ k # later) = Inl (AssertionError (Not_found k))"
  by (induction ks arbitrary: d) (auto split: option.splits)


text \<open>
  C9, as the claim has it, fails on the path \<^verbatim>\<open>//\<close>: nothing is left of it once the
  leading separators are gone, yet the lookup does not end in the invalid-slice exception.
  Splitting gives three empty segments, two are removed, and the third is looked up as a
  key.
\<close>

theorem getitem_double_slash:
  "Tree_getitem (nodes deep_example) (tree_dict (nodes deep_example 0)) ''//'' =
     Inl (AssertionError (Not_found []))"
  by (simp add: run_defs deep_example_eval)

text \<open>
  C9, amended. \<^verbatim>\<open>Tree.__getitem__\<close> raises the invalid-slice exception (the spec's
  InvalidPath) exactly on the empty path and on the path \<^verbatim>\<open>/\<close>. On every other path a
  first segment remains; when the segments \<open>ks\<close> resolve and the next one, \<open>k\<close>, is not a
  key of the dictionary reached, the lookup fails on the assertion of line 507 (the
  spec's KeyNotFound), whose message names \<open>k\<close>.
\<close>

theorem Tree_getitem_errors:
  "(Tree_getitem h d path = Inl Invalid_slice \<longleftrightarrow> path = [] \<or> path = ''/'') \<and>
   (remove_empty_twice (str_split CHR ''/'' path) = ks @ k # later \<and>
    walk h d ks = Some d' \<and> map_of d' k = None \<longrightarrow>
      Tree_getitem h d path = Inl (AssertionError (Not_found k)))"
  by (auto simp: Tree_getitem_def getitem_from_list_Invalid_slice remove_empty_twice_Nil
        str_split_not_Nil str_split_one_empty str_split_two_empty getitem_from_list_walk)

theorem Tree_getitem_errors_witness:
  "remove_empty_twice (str_split CHR ''/'' ''/a/missing'') = [''a''] @ ''missing'' # [] \<and>
   walk (nodes deep_example) (tree_dict (nodes deep_example 0)) [''a''] = Some [(''x'', 2)] \<and>
   map_of [(''x'', 2::nat)] ''missing'' = None \<and>
   Tree_getitem (nodes deep_example) (tree_dict (nodes deep_example 0)) ''/a/missing'' =
     Inl (AssertionError (Not_found ''missing'')) \<and>
   Tree_getitem (nodes deep_example) (tree_dict (nodes deep_example 0)) ''/'' = Inl Invalid_slice"
  using Tree_getitem_errors [of "nodes deep_example" "tree_dict (nodes deep_example 0)" "''/a/missing''"
          "[''a'']" "''missing''" "[]" "[(''x'', 2)]"]
        Tree_getitem_errors [of "nodes deep_example" "tree_dict (nodes deep_example 0)" "''/''"]
  by (simp add: deep_example_eval remove_empty_twice_def)


section \<open>The dispatching method, one operation at a time\<close>




section \<open>Grafting with a merge mode that is not accepted\<close>

text \<open>
  C5, as the claim has it, fails: in \<open>deep_example\<close>, \<^verbatim>\<open>x.graft(S, 'merge')\<close> does raise on
  the assertion of line 249, but by then \<^verbatim>\<open>x\<close> has left the tree of \<^verbatim>\<open>a\<close> and sits in the
  tree of \<^verbatim>\<open>S\<close>. The store after the call is not the store before it.
\<close>

theorem graft_bad_mode_moves:
  "fst (graft 2 (VNode 4) (VStr ''merge'') deep_example) = Inl (AssertionError Graft_merge_metadata) \<and>
   tree_dict (nodes deep_example 1) = [(''x'', 2)] \<and>
   tree_dict (nodes (snd (graft 2 (VNode 4) (VStr ''merge'') deep_example)) 1) = [] \<and>
   tree_dict (nodes deep_example 4) = [] \<and>
   tree_dict (nodes (snd (graft 2 (VNode 4) (VStr ''merge'') deep_example)) 4) = [(''x'', 2)] \<and>
   snd (graft 2 (VNode 4) (VStr ''merge'') deep_example) \<noteq> deep_example"
proof -
  let ?st = "snd (graft 2 (VNode 4) (VStr ''merge'') deep_example)"
  have a: "tree_dict (nodes ?st 4) = [(''x'', 2)]"
    by (simp add: run_defs deep_example_eval)
  have b: "tree_dict (nodes deep_example 4) = []"
    by (simp add: deep_example_eval)
  from a b have "?st \<noteq> deep_example" by auto
  moreover have "fst (graft 2 (VNode 4) (VStr ''merge'') deep_example) =
      Inl (AssertionError Graft_merge_metadata)"
    by (simp add: run_defs deep_example_eval)
  moreover have "tree_dict (nodes deep_example 1) = [(''x'', 2)]"
    by (simp add: deep_example_eval)
  moreover have "tree_dict (nodes ?st 1) = []"
    by (simp add: run_defs deep_example_eval)
  ultimately show ?thesis using a b by blast
qed

text \<open>
  C5, amended. Let \<open>s\<close> be rooted with a parent \<open>u\<close> that its path resolves to and that
  holds it under the last segment of that path, let \<open>t\<close> be a rooted node other than \<open>s\<close>
  (with a path of its own), and let \<open>m\<close> be a mode that the test of line 249 rejects.
  Then \<^verbatim>\<open>s.graft(t, m)\<close> fails on that assertion (the spec's InvalidArgument), and it does
  so after the move: \<open>s\<close> is in the tree of \<open>t\<close> under its name, has the root of \<open>t\<close> and
  the path of \<open>t\<close> extended by its name, and no metadata has been touched. When \<open>t\<close> is
  not the old parent \<open>u\<close>, \<open>s\<close> is gone from the tree of \<open>u\<close> and the store is not the
  store before the call.
\<close>

theorem graft_bad_mode:
  assumes ro: "root (nodes st s) = Some ro" and rn: "root (nodes st t) = Some rn"
    and p: "treepath (nodes st s) = Some p"
    and sp: "rev (str_split CHR ''/'' p) = this_node # rest"
    and u: "get_from_tree s (str_join ''/'' (rev rest)) st = Inr u"
    and key: "this_node \<in> fst ` set (tree_dict (nodes st u))"
    and pt: "treepath (nodes st t) = Some pt"
    and ts: "t \<noteq> s"
    and bad: "\<not> merge_metadata_in_list m"
  shows "\<exists>st'. graft s (VNode t) m st = (Inl (AssertionError Graft_merge_metadata), st') \<and>
      map_of (tree_dict (nodes st' t)) (name (nodes st s)) = Some s \<and>
      root (nodes st' s) = Some rn \<and>
      treepath (nodes st' s) = Some (pt @ ''/'' @ name (nodes st s)) \<and>
      (u \<noteq> t \<longrightarrow> map_of (tree_dict (nodes st' u)) this_node = None \<and> st' \<noteq> st) \<and>
      (\<forall>a. metadata (nodes st' a) = metadata (nodes st a)) \<and> mds st' = mds st"
proof -
  let ?d = "AList.delete this_node (tree_dict (nodes st u))"
  have d: "Tree_delitem (tree_dict (nodes st u)) this_node = Inr ?d"
    using key by (simp add: Tree_delitem_def)
  define st2 where "st2 = upd_node s (\<lambda>x. x\<lparr>root := None\<rparr>) (upd_node u (\<lambda>x. x\<lparr>tree_dict := ?d\<rparr>) st)"
  have r2t: "root (nodes st2 t) = Some rn" using rn ts by (auto simp: st2_def upd_node_def)
  have r2s: "root (nodes st2 s) = None" by (simp add: st2_def upd_node_def)
  have p2t: "treepath (nodes st2 t) = Some pt" using pt ts by (auto simp: st2_def upd_node_def)
  have n2s: "name (nodes st2 s) = name (nodes st s)" by (auto simp: st2_def upd_node_def)
  have u2: "u \<noteq> t \<Longrightarrow> map_of (tree_dict (nodes st2 u)) this_node = None"
    by (auto simp: st2_def upd_node_def AList.delete_conv')
  have m2: "\<forall>a. metadata (nodes st2 a) = metadata (nodes st a)" "mds st2 = mds st"
    by (auto simp: st2_def upd_node_def)
  have add: "\<exists>st3. add_to_tree t (VNode s) st2 = (Inr (), st3) \<and>
      map_of (tree_dict (nodes st3 t)) (name (nodes st s)) = Some s \<and>
      root (nodes st3 s) = Some rn \<and>
      treepath (nodes st3 s) = Some (pt @ ''/'' @ name (nodes st s)) \<and>
      (u \<noteq> t \<longrightarrow> map_of (tree_dict (nodes st3 u)) this_node = None) \<and>
      (\<forall>a. metadata (nodes st3 a) = metadata (nodes st2 a)) \<and> mds st3 = mds st2"
    using r2t r2s p2t n2s u2 ts
    by (auto simp: add_to_tree_def upd_node_def Let_def AList.update_conv')
  then obtain st3 where a: "add_to_tree t (VNode s) st2 = (Inr (), st3)"
    and props: "map_of (tree_dict (nodes st3 t)) (name (nodes st s)) = Some s"
      "root (nodes st3 s) = Some rn"
      "treepath (nodes st3 s) = Some (pt @ ''/'' @ name (nodes st s))"
      "u \<noteq> t \<longrightarrow> map_of (tree_dict (nodes st3 u)) this_node = None"
      "\<forall>a. metadata (nodes st3 a) = metadata (nodes st2 a)" "mds st3 = mds st2"
    by blast
  have g: "graft s (VNode t) m st = (Inl (AssertionError Graft_merge_metadata), st3)"
    using ro rn p sp u d a bad by (simp add: graft_def graft_merge_def st2_def Let_def)
  have held: "map_of (tree_dict (nodes st u)) this_node \<noteq> None"
    using key by (simp add: map_of_eq_None_iff)
  have changed: "u \<noteq> t \<longrightarrow> st3 \<noteq> st"
    using props(4) held by auto
  from g props m2 changed show ?thesis by auto
qed


theorem graft_bad_mode_witness:
  "root (nodes deep_example 2) = Some 0 \<and> root (nodes deep_example 4) = Some 4 \<and>
   treepath (nodes deep_example 2) = Some ''/a/x'' \<and>
   rev (str_split CHR ''/'' ''/a/x'') = ''x'' # [''a'', []] \<and>
   get_from_tree 2 (str_join ''/'' (rev [''a'', []])) deep_example = Inr 1 \<and>
   ''x'' \<in> fst ` set (tree_dict (nodes deep_example 1)) \<and>
   treepath (nodes deep_example 4) = Some [] \<and> (4::nat) \<noteq> 2 \<and>
   \<not> merge_metadata_in_list (VStr ''merge'') \<and>
   (\<exists>st'. graft 2 (VNode 4) (VStr ''merge'') deep_example =
             (Inl (AssertionError Graft_merge_metadata), st') \<and>
          map_of (tree_dict (nodes st' 4)) ''x'' = Some 2 \<and>
          root (nodes st' 2) = Some 4 \<and>
          treepath (nodes st' 2) = Some ''/x'' \<and>
          map_of (tree_dict (nodes st' 1)) ''x'' = None \<and> st' \<noteq> deep_example)"
proof -
  have h1: "root (nodes deep_example 2) = Some 0" by (simp add: deep_example_eval)
  have h2: "root (nodes deep_example 4) = Some 4" by (simp add: deep_example_eval)
  have h3: "treepath (nodes deep_example 2) = Some ''/a/x''" by (simp add: deep_example_eval)
  have h4: "rev (str_split CHR ''/'' ''/a/x'') = ''x'' # [''a'', []]" by simp
  have h5: "get_from_tree 2 (str_join ''/'' (rev [''a'', []])) deep_example = Inr 1"
    by (simp add: run_defs deep_example_eval)
  have h6: "''x'' \<in> fst ` set (tree_dict (nodes deep_example 1))" by (simp add: deep_example_eval)
  have h7: "treepath (nodes deep_example 4) = Some []" by (simp add: deep_example_eval)
  have h8: "(4::nat) \<noteq> 2" by simp
  have h9: "\<not> merge_metadata_in_list (VStr ''merge'')" by (simp add: merge_metadata_in_list_def)
  from graft_bad_mode [OF h1 h2 h3 h4 h5 h6 h7 h8 h9]
  have "\<exists>st'. graft 2 (VNode 4) (VStr ''merge'') deep_example =
             (Inl (AssertionError Graft_merge_metadata), st') \<and>
          map_of (tree_dict (nodes st' 4)) ''x'' = Some 2 \<and>
          root (nodes st' 2) = Some 4 \<and>
          treepath (nodes st' 2) = Some ''/x'' \<and>
          map_of (tree_dict (nodes st' 1)) ''x'' = None \<and> st' \<noteq> deep_example"
    by (auto simp: deep_example_eval)
  with h1 h2 h3 h4 h5 h6 h7 h8 h9 show ?thesis by blast
qed


text \<open>
  When the target is the old parent itself, the node is taken out and put back: in
  \<open>deep_example\<close>, \<^verbatim>\<open>x.graft(a, 'merge')\<close> fails on the same assertion and the nodes are
  what they were.
\<close>

lemma graft_bad_mode_same_parent:
  "fst (graft 2 (VNode 1) (VStr ''merge'') deep_example) = Inl (AssertionError Graft_merge_metadata) \<and>
   nodes (snd (graft 2 (VNode 1) (VStr ''merge'') deep_example)) = nodes deep_example"
  by (auto simp: run_defs deep_example_eval fun_eq_iff)


section \<open>The metadata of the old root after a graft\<close>

lemma metadata_set_frame:
  "mds (metadata_set a x st) = mds st"
  "next_md (metadata_set a x st) = next_md st"
  "root (nodes (metadata_set a x st) b) = root (nodes st b)"
  "metadata (nodes (metadata_set a x st) b) =
     (if b = a then AList.update (md_name (mds st x)) x (metadata (nodes st a))
      else metadata (nodes st b))"
  by (simp_all add: metadata_set_def upd_node_def)

lemma merge_loop_transfer:
  "merge_loop False ro t n ks st = (Inr (), st') \<Longrightarrow> root (nodes st t) = Some rn \<Longrightarrow>
   \<forall>k\<in>set ks. \<exists>x. map_of (metadata (nodes st ro)) k = Some x \<and> md_name (mds st x) = k \<Longrightarrow>
   mds st' = mds st \<and> next_md st' = next_md st \<and>
   (\<forall>k\<in>set ks. map_of (metadata (nodes st' rn)) k = map_of (metadata (nodes st ro)) k) \<and>
   (\<forall>k. k \<notin> set ks \<longrightarrow> map_of (metadata (nodes st' rn)) k = map_of (metadata (nodes st rn)) k)"
proof (induction ks arbitrary: st)
  case Nil
  then show ?case by (auto split: if_splits)
next
  case (Cons k ks)
  from Cons.prems(3) obtain x where x: "map_of (metadata (nodes st ro)) k = Some x"
    and nx: "md_name (mds st x) = k" by auto
  let ?st1 = "metadata_set rn x st"
  from Cons.prems(1) x Cons.prems(2)
  have loop: "merge_loop False ro t n ks ?st1 = (Inr (), st')"
    by (auto split: if_splits)
  have r1: "root (nodes ?st1 t) = Some rn"
    using Cons.prems(2) by (simp add: metadata_set_frame)
  have m1: "map_of (metadata (nodes ?st1 ro)) = map_of (metadata (nodes st ro))"
    using x nx by (auto simp: metadata_set_frame AList.update_conv' map_upd_triv)
  have mrn: "map_of (metadata (nodes ?st1 rn)) = (map_of (metadata (nodes st rn)))(k \<mapsto> x)"
    using nx by (simp add: metadata_set_frame AList.update_conv')
  have h1: "\<forall>k'\<in>set ks. \<exists>x. map_of (metadata (nodes ?st1 ro)) k' = Some x \<and> md_name (mds ?st1 x) = k'"
    using Cons.prems(3) by (simp add: m1 metadata_set_frame(1))
  from Cons.IH [OF loop r1 h1]
  have ih: "mds st' = mds ?st1" "next_md st' = next_md ?st1"
    "\<forall>k'\<in>set ks. map_of (metadata (nodes st' rn)) k' = map_of (metadata (nodes ?st1 ro)) k'"
    "\<forall>k'. k' \<notin> set ks \<longrightarrow> map_of (metadata (nodes st' rn)) k' = map_of (metadata (nodes ?st1 rn)) k'"
    by auto
  show ?case
    using ih [unfolded m1 mrn] x by (cases "k \<in> set ks") (auto simp: metadata_set_frame(1,2))
qed

lemma Metadata_copy_frame:
  "Metadata_copy x st = (y, st1) \<Longrightarrow>
   y = next_md st \<and> next_md st1 = Suc (next_md st) \<and> nodes st1 = nodes st \<and>
   mds st1 = (mds st)(y := mds st x)"
  by (auto simp: Metadata_copy_def Metadata_init_def Let_def)

lemma merge_loop_copy:
  "merge_loop True ro t n ks st = (Inr (), st') \<Longrightarrow> root (nodes st t) = Some rn \<Longrightarrow>
   distinct ks \<Longrightarrow>
   \<forall>k\<in>set ks. \<exists>x. map_of (metadata (nodes st ro)) k = Some x \<and> md_name (mds st x) = k \<and> x < next_md st \<Longrightarrow>
   (\<forall>z<next_md st. mds st' z = mds st z) \<and> next_md st \<le> next_md st' \<and>
   (\<forall>k\<in>set ks. \<exists>x y. map_of (metadata (nodes st ro)) k = Some x \<and>
        map_of (metadata (nodes st' rn)) k = Some y \<and> next_md st \<le> y \<and> mds st' y = mds st x) \<and>
   (\<forall>k. k \<notin> set ks \<longrightarrow> map_of (metadata (nodes st' rn)) k = map_of (metadata (nodes st rn)) k)"
proof (induction ks arbitrary: st)
  case Nil
  then show ?case by (auto split: if_splits)
next
  case (Cons k ks)
  from Cons.prems(4) obtain x where x: "map_of (metadata (nodes st ro)) k = Some x"
    and nx: "md_name (mds st x) = k" and ax: "x < next_md st" by auto
  obtain y st1 where cp: "Metadata_copy x st = (y, st1)" by (cases "Metadata_copy x st")
  note fr = Metadata_copy_frame [OF cp]
  let ?st2 = "metadata_set rn y st1"
  from Cons.prems(1) x Cons.prems(2) cp fr
  have loop: "merge_loop True ro t n ks ?st2 = (Inr (), st')"
    by (auto split: if_splits)
  have r2: "root (nodes ?st2 t) = Some rn"
    using Cons.prems(2) fr by (simp add: metadata_set_frame)
  have ny: "md_name (mds st1 y) = k" using fr nx by simp
  have mro: "\<And>k'. k' \<noteq> k \<Longrightarrow> map_of (metadata (nodes ?st2 ro)) k' = map_of (metadata (nodes st ro)) k'"
    using fr ny by (auto simp: metadata_set_frame AList.update_conv')
  have mrn: "map_of (metadata (nodes ?st2 rn)) = (map_of (metadata (nodes st rn)))(k \<mapsto> y)"
    using fr ny by (simp add: metadata_set_frame AList.update_conv')
  have old: "\<And>z. z < next_md st \<Longrightarrow> mds ?st2 z = mds st z"
    using fr by (simp add: metadata_set_frame)
  have nxt: "next_md ?st2 = Suc (next_md st)"
    using fr by (simp add: metadata_set_frame)
  have kn: "k \<notin> set ks" and dk: "distinct ks" using Cons.prems(3) by auto
  have h2: "\<forall>k'\<in>set ks. \<exists>x. map_of (metadata (nodes ?st2 ro)) k' = Some x \<and>
      md_name (mds ?st2 x) = k' \<and> x < next_md ?st2"
  proof
    fix k' assume k': "k' \<in> set ks"
    with Cons.prems(4) obtain x' where "map_of (metadata (nodes st ro)) k' = Some x'"
      "md_name (mds st x') = k'" "x' < next_md st" by auto
    moreover from k' kn have "k' \<noteq> k" by auto
    ultimately show "\<exists>x. map_of (metadata (nodes ?st2 ro)) k' = Some x \<and>
      md_name (mds ?st2 x) = k' \<and> x < next_md ?st2"
      using mro old nxt by auto
  qed
  from Cons.IH [OF loop r2 dk h2]
  have ih1: "\<forall>z<next_md ?st2. mds st' z = mds ?st2 z"
    and ih2: "next_md ?st2 \<le> next_md st'"
    and ih3: "\<forall>k'\<in>set ks. \<exists>x y. map_of (metadata (nodes ?st2 ro)) k' = Some x \<and>
        map_of (metadata (nodes st' rn)) k' = Some y \<and> next_md ?st2 \<le> y \<and> mds st' y = mds ?st2 x"
    and ih4: "\<forall>k'. k' \<notin> set ks \<longrightarrow> map_of (metadata (nodes st' rn)) k' = map_of (metadata (nodes ?st2 rn)) k'"
    by auto
  have c1: "\<forall>z<next_md st. mds st' z = mds st z"
    using ih1 old nxt by auto
  have c2: "next_md st \<le> next_md st'" using ih2 nxt by simp
  have yk: "map_of (metadata (nodes st' rn)) k = Some y" using ih4 kn mrn by simp
  have yv: "mds st' y = mds st x"
    using ih1 nxt fr by (simp add: metadata_set_frame)
  have c3: "\<forall>k'\<in>set (k # ks). \<exists>x y. map_of (metadata (nodes st ro)) k' = Some x \<and>
        map_of (metadata (nodes st' rn)) k' = Some y \<and> next_md st \<le> y \<and> mds st' y = mds st x"
  proof
    fix k' assume "k' \<in> set (k # ks)"
    then consider "k' = k" | "k' \<in> set ks" "k' \<noteq> k" using kn by auto
    then show "\<exists>x y. map_of (metadata (nodes st ro)) k' = Some x \<and>
        map_of (metadata (nodes st' rn)) k' = Some y \<and> next_md st \<le> y \<and> mds st' y = mds st x"
    proof cases
      case 1
      with x yk yv fr show ?thesis by auto
    next
      case 2
      with ih3 obtain x' y' where a: "map_of (metadata (nodes ?st2 ro)) k' = Some x'"
        "map_of (metadata (nodes st' rn)) k' = Some y'" "next_md ?st2 \<le> y'" "mds st' y' = mds ?st2 x'"
        by blast
      from 2 Cons.prems(4) obtain x'' where b: "map_of (metadata (nodes st ro)) k' = Some x''"
        "x'' < next_md st" by auto
      from a(1) b(1) mro [OF 2(2)] have "x' = x''" by simp
      with a b old nxt show ?thesis by auto
    qed
  qed
  have c4: "\<forall>k'. k' \<notin> set (k # ks) \<longrightarrow> map_of (metadata (nodes st' rn)) k' = map_of (metadata (nodes st rn)) k'"
    using ih4 mrn by auto
  from c1 c2 c3 c4 show ?case by blast
qed


lemma graft_Inr_decompose:
  assumes "graft s (VNode t) m st = (Inr r, st')"
  shows "\<exists>ro rn st3. root (nodes st s) = Some ro \<and> root (nodes st t) = Some rn \<and>
           root (nodes st3 t) = Some rn \<and> (\<forall>a. metadata (nodes st3 a) = metadata (nodes st a)) \<and>
           mds st3 = mds st \<and> next_md st3 = next_md st \<and>
           graft_merge ro t m st3 = (Inr r, st')"
proof -
  from assms obtain ro where ro: "root (nodes st s) = Some ro"
    by (auto simp: graft_def split: option.splits)
  from assms ro obtain rn where rn: "root (nodes st t) = Some rn"
    by (auto simp: graft_def split: option.splits)
  from assms ro rn obtain p where p: "treepath (nodes st s) = Some p"
    by (auto simp: graft_def split: option.splits)
  from assms ro rn p obtain this_node rest where sp: "rev (str_split CHR ''/'' p) = this_node # rest"
    by (auto simp: graft_def split: list.splits)
  from assms ro rn p sp obtain u where u: "get_from_tree s (str_join ''/'' (rev rest)) st = Inr u"
    by (auto simp: graft_def split: sum.splits)
  from assms ro rn p sp u obtain d where d: "Tree_delitem (tree_dict (nodes st u)) this_node = Inr d"
    by (auto simp: graft_def split: sum.splits)
  define st2 where "st2 = upd_node s (\<lambda>x. x\<lparr>root := None\<rparr>) (upd_node u (\<lambda>x. x\<lparr>tree_dict := d\<rparr>) st)"
  from assms ro rn p sp u d
  have g: "(case add_to_tree t (VNode s) st2 of
              (Inl e, st3) \<Rightarrow> (Inl e, st3)
            | (Inr u, st3) \<Rightarrow> graft_merge ro t m st3) = (Inr r, st')"
    by (simp add: graft_def st2_def Let_def)
  then obtain st3 where a: "add_to_tree t (VNode s) st2 = (Inr (), st3)"
    and gm: "graft_merge ro t m st3 = (Inr r, st')"
    by (auto split: prod.splits sum.splits)
  have ts: "t \<noteq> s"
    using a by (auto simp: add_to_tree_def st2_def upd_node_def split: option.splits)
  have r2: "root (nodes st2 t) = Some rn"
    using ts rn by (auto simp: st2_def upd_node_def)
  have md2: "\<forall>a. metadata (nodes st2 a) = metadata (nodes st a)"
    by (simp add: st2_def upd_node_def)
  have s2: "mds st2 = mds st" "next_md st2 = next_md st"
    by (simp_all add: st2_def upd_node_def)
  from a r2 ts have
    "root (nodes st3 t) = Some rn \<and> (\<forall>a. metadata (nodes st3 a) = metadata (nodes st2 a)) \<and>
     mds st3 = mds st2 \<and> next_md st3 = next_md st2"
    by (auto simp: add_to_tree_def upd_node_def Let_def split: option.splits)
  with ro rn md2 s2 gm show ?thesis by auto
qed


lemma merge_loop_root:
  "merge_loop cp ro t n ks st = (Inr u, st') \<Longrightarrow> root (nodes st' a) = root (nodes st a)"
proof (induction ks arbitrary: st)
  case Nil
  then show ?case by (auto split: if_splits)
next
  case (Cons k ks)
  then show ?case
    by (auto simp: metadata_set_frame Metadata_copy_def Metadata_init_def Let_def
          split: if_splits option.splits prod.splits)
qed


text \<open>
  What a graft that returns does with the metadata. Let \<^verbatim>\<open>s.graft(t, m)\<close> return, let
  \<open>ro\<close> be the root of \<open>s\<close> before the call, and let the metadata dictionary of \<open>ro\<close> be
  well formed: distinct keys, every bundle stored under its own name, every bundle an
  allocated instance. The call returns the root \<open>rn\<close> of \<open>t\<close>, and
  \<^item> with \<^verbatim>\<open>True\<close>, \<open>rn\<close> afterwards holds every bundle of \<open>ro\<close> under its name, as the
    same instance, and no instance has changed;
  \<^item> with \<^verbatim>\<open>'copy'\<close>, \<open>rn\<close> afterwards holds under each such name an instance that did
    not exist before the call (so it is not the bundle of \<open>ro\<close>, and nothing else refers
    to it), with the contents of the bundle of \<open>ro\<close>, which is itself unchanged;
  \<^item> with \<^verbatim>\<open>False\<close>, the metadata dictionary of \<open>rn\<close> is what it was.
\<close>

theorem graft_metadata:
  assumes g: "graft s (VNode t) m st = (Inr r, st')"
    and ro: "root (nodes st s) = Some ro"
    and dist: "distinct (map fst (metadata (nodes st ro)))"
    and wf: "\<forall>(k, x) \<in> set (metadata (nodes st ro)). md_name (mds st x) = k \<and> x < next_md st"
  shows "\<exists>rn. root (nodes st t) = Some rn \<and> r = VNode rn \<and>
     (m = VBool True \<longrightarrow>
        (\<forall>(k, x) \<in> set (metadata (nodes st ro)). map_of (metadata (nodes st' rn)) k = Some x) \<and>
        mds st' = mds st) \<and>
     (m = VStr ''copy'' \<longrightarrow>
        (\<forall>(k, x) \<in> set (metadata (nodes st ro)).
           \<exists>y. map_of (metadata (nodes st' rn)) k = Some y \<and> y \<noteq> x \<and> next_md st \<le> y \<and>
               mds st' y = mds st x \<and> mds st' x = mds st x)) \<and>
     (m = VBool False \<longrightarrow> metadata (nodes st' rn) = metadata (nodes st rn) \<and> mds st' = mds st)"
proof -
  from graft_Inr_decompose [OF g] ro obtain rn st3 where
    rn: "root (nodes st t) = Some rn" and rn3: "root (nodes st3 t) = Some rn"
    and md3: "\<forall>a. metadata (nodes st3 a) = metadata (nodes st a)"
    and mds3: "mds st3 = mds st" and nx3: "next_md st3 = next_md st"
    and gm: "graft_merge ro t m st3 = (Inr r, st')"
    by auto
  let ?M = "metadata (nodes st ro)"
  have look: "\<And>k x. (k, x) \<in> set ?M \<Longrightarrow> map_of ?M k = Some x"
    using dist by simp
  have keys: "\<forall>k\<in>set (map fst ?M). \<exists>x. map_of (metadata (nodes st3 ro)) k = Some x \<and>
      md_name (mds st3 x) = k \<and> x < next_md st3"
    using wf look md3 mds3 nx3 by fastforce
  have ret: "r = VNode rn"
    using gm rn3 merge_loop_root [where t = t and a = t and ro = ro]
    by (auto simp: graft_merge_def root_val_def md3 split: if_splits prod.splits sum.splits)
  have c_false: "m = VBool False \<Longrightarrow> metadata (nodes st' rn) = metadata (nodes st rn) \<and> mds st' = mds st"
    using gm md3 mds3 by (auto simp: graft_merge_def merge_metadata_in_list_def)
  have c_true: "(\<forall>(k, x) \<in> set ?M. map_of (metadata (nodes st' rn)) k = Some x) \<and> mds st' = mds st"
    if "m = VBool True"
  proof -
    from gm that have loop: "merge_loop False ro t (length ?M) (map fst ?M) st3 = (Inr (), st')"
      by (auto simp: graft_merge_def merge_metadata_in_list_def md3 split: prod.splits sum.splits)
    from keys have keys': "\<forall>k\<in>set (map fst ?M). \<exists>x. map_of (metadata (nodes st3 ro)) k = Some x \<and>
      md_name (mds st3 x) = k" by blast
    from merge_loop_transfer [OF loop rn3 keys']
    have a: "mds st' = mds st3"
      and b: "\<forall>k\<in>set (map fst ?M). map_of (metadata (nodes st' rn)) k = map_of (metadata (nodes st3 ro)) k"
      by auto
    have "map_of (metadata (nodes st' rn)) k = Some x" if "(k, x) \<in> set ?M" for k x
    proof -
      from that have "k \<in> set (map fst ?M)" by force
      with b have "map_of (metadata (nodes st' rn)) k = map_of (metadata (nodes st3 ro)) k" by blast
      with md3 look [OF that] show ?thesis by simp
    qed
    with a mds3 show ?thesis by auto
  qed
  have c_copy: "\<forall>(k, x) \<in> set ?M.
           \<exists>y. map_of (metadata (nodes st' rn)) k = Some y \<and> y \<noteq> x \<and> next_md st \<le> y \<and>
               mds st' y = mds st x \<and> mds st' x = mds st x"
    if "m = VStr ''copy''"
  proof -
    from gm that have loop: "merge_loop True ro t (length ?M) (map fst ?M) st3 = (Inr (), st')"
      by (auto simp: graft_merge_def merge_metadata_in_list_def md3 split: prod.splits sum.splits)
    from merge_loop_copy [OF loop rn3 dist keys]
    have a: "\<forall>z<next_md st3. mds st' z = mds st3 z"
      and b: "\<forall>k\<in>set (map fst ?M). \<exists>x y. map_of (metadata (nodes st3 ro)) k = Some x \<and>
        map_of (metadata (nodes st' rn)) k = Some y \<and> next_md st3 \<le> y \<and> mds st' y = mds st3 x"
      by auto
    have "\<exists>y. map_of (metadata (nodes st' rn)) k = Some y \<and> y \<noteq> x \<and> next_md st \<le> y \<and>
               mds st' y = mds st x \<and> mds st' x = mds st x" if kx: "(k, x) \<in> set ?M" for k x
    proof -
      from kx have "k \<in> set (map fst ?M)" by force
      with b obtain x' y where "map_of (metadata (nodes st3 ro)) k = Some x'"
        "map_of (metadata (nodes st' rn)) k = Some y" "next_md st3 \<le> y" "mds st' y = mds st3 x'"
        by blast
      moreover from this(1) md3 look [OF kx] have "x' = x" by simp
      moreover from wf kx have "x < next_md st" by auto
      ultimately show ?thesis using a mds3 nx3 by auto
    qed
    then show ?thesis by auto
  qed
  from rn ret c_false c_true c_copy show ?thesis by blast
qed


theorem graft_metadata_witness:
  "root (nodes deep_example 2) = Some 0 \<and>
   metadata (nodes deep_example 0) = [(''cal'', 0)] \<and>
   md_name (mds deep_example 0) = ''cal'' \<and> 0 < next_md deep_example \<and>
   fst (graft 2 (VNode 4) (VBool True) deep_example) = Inr (VNode 4) \<and>
   map_of (metadata (nodes (snd (graft 2 (VNode 4) (VBool True) deep_example)) 4)) ''cal'' = Some 0 \<and>
   fst (graft 2 (VNode 4) (VStr ''copy'') deep_example) = Inr (VNode 4) \<and>
   (\<exists>y. map_of (metadata (nodes (snd (graft 2 (VNode 4) (VStr ''copy'') deep_example)) 4)) ''cal'' = Some y \<and>
        y \<noteq> 0 \<and>
        mds (snd (graft 2 (VNode 4) (VStr ''copy'') deep_example)) y = mds deep_example 0) \<and>
   fst (graft 2 (VNode 4) (VBool False) deep_example) = Inr (VNode 4) \<and>
   metadata (nodes (snd (graft 2 (VNode 4) (VBool False) deep_example)) 4) = []"
proof -
  let ?T = "graft 2 (VNode 4) (VBool True) deep_example"
  let ?C = "graft 2 (VNode 4) (VStr ''copy'') deep_example"
  let ?F = "graft 2 (VNode 4) (VBool False) deep_example"
  have ro: "root (nodes deep_example 2) = Some 0" by (simp add: deep_example_eval)
  have md: "metadata (nodes deep_example 0) = [(''cal'', 0)]" by (simp add: deep_example_eval)
  have nm: "md_name (mds deep_example 0) = ''cal''" "0 < next_md deep_example"
    by (simp_all add: deep_example_eval)
  have dist: "distinct (map fst (metadata (nodes deep_example 0)))" by (simp add: md)
  have wf: "\<forall>(k, x) \<in> set (metadata (nodes deep_example 0)).
      md_name (mds deep_example x) = k \<and> x < next_md deep_example"
    by (simp add: md nm)
  have fT: "fst ?T = Inr (VNode 4)" by (simp add: run_defs deep_example_eval)
  have fC: "fst ?C = Inr (VNode 4)" by (simp add: run_defs deep_example_eval)
  have fF: "fst ?F = Inr (VNode 4)" by (simp add: run_defs deep_example_eval)
  have gT: "?T = (Inr (VNode 4), snd ?T)" using fT by (simp add: prod_eq_iff)
  have gC: "?C = (Inr (VNode 4), snd ?C)" using fC by (simp add: prod_eq_iff)
  have gF: "?F = (Inr (VNode 4), snd ?F)" using fF by (simp add: prod_eq_iff)
  from graft_metadata [OF gT ro dist wf]
  have cT: "map_of (metadata (nodes (snd ?T) 4)) ''cal'' = Some 0"
    by (simp add: md deep_example_eval)
  from graft_metadata [OF gC ro dist wf]
  have cC: "\<exists>y. map_of (metadata (nodes (snd ?C) 4)) ''cal'' = Some y \<and> y \<noteq> 0 \<and>
      mds (snd ?C) y = mds deep_example 0"
    by (auto simp: md deep_example_eval)
  from graft_metadata [OF gF ro dist wf]
  have cF: "metadata (nodes (snd ?F) 4) = []"
    by (simp add: md deep_example_eval)
  from ro md nm fT cT fC cC fF cF show ?thesis by blast
qed

section \<open>The metadata of the old root when the graft does not get through\<close>

text \<open>
  C8. Run on the code: in \<open>bundle_example\<close> the root \<^verbatim>\<open>R\<close> holds the bundle \<^verbatim>\<open>cal\<close>, its
  child \<^verbatim>\<open>x\<close> is rooted and \<^verbatim>\<open>S\<close> is another root holding no bundle. For every mode
  \<open>m\<close>, \<^verbatim>\<open>True\<close> and \<^verbatim>\<open>'copy'\<close> among them, \<^verbatim>\<open>x.graft(S, m)\<close> ends in \<^verbatim>\<open>IndexError\<close> before
  the lines that merge the metadata are reached, and the store is left as it was: \<^verbatim>\<open>S\<close>
  holds no bundle of \<^verbatim>\<open>R\<close>, neither the instance nor a copy.
\<close>

theorem graft_child_of_root_merges_nothing:
  "root (nodes bundle_example 1) = Some 0 \<and> root (nodes bundle_example 2) = Some 2 \<and>
   metadata (nodes bundle_example 0) = [(''cal'', 0)] \<and>
   metadata (nodes bundle_example 2) = [] \<and>
   graft 1 (VNode 2) m bundle_example = (Inl IndexError, bundle_example)"
  by (simp add: graft_def get_from_tree_def bundle_example_eval)

end
